theory Spec2Isabelle
  imports Complex_Main
begin

section \<open>Numbers\<close>

text \<open>
  The scoring core is written in TypeScript; every quantity is a JavaScript \<open>number\<close>.
  Throughout this development a \<open>number\<close> is a \<^typ>\<open>real\<close>: arithmetic is exact, and the
  values \<open>NaN\<close> and \<open>\<plusminus>Infinity\<close> do not occur. Array lengths, indices and ranks are
  \<^typ>\<open>nat\<close>.

  \<open>Math.round x\<close> is \<open>\<lfloor>x + 1/2\<rfloor>\<close>, which is \<^const>\<open>round\<close>; \<open>Math.ceil\<close> is
  \<^const>\<open>ceiling\<close>.

  \<open>parseFloat(x.toFixed(2))\<close>: \<open>toFixed\<close> takes the sign off, returns the plain decimal
  expansion of \<open>x\<close> itself once \<open>x \<ge> 10^21\<close>, and otherwise picks the integer \<open>n\<close> with
  \<open>n / 100\<close> closest to \<open>x\<close>, the larger one on a tie; \<open>parseFloat\<close> reads the digits back.
\<close>

definition toFixed2 :: "real \<Rightarrow> real" where
  "toFixed2 x =
     (if 10 ^ 21 \<le> \<bar>x\<bar> then x
      else sgn x * (of_int \<lfloor>\<bar>x\<bar> * 100 + 1 / 2\<rfloor> / 100))"

text \<open>An optional boolean property is falsy when it is absent.\<close>

fun truthy :: "bool option \<Rightarrow> bool" where
  "truthy None = False"
| "truthy (Some b) = b"

section \<open>calcAggregate\<close>

text \<open>
  \<open>equivalencePercentage?: number\<close> is \<open>None\<close> when undefined. The \<open>explanation\<close> text of the
  breakdown, which only formats the numbers below, is left out of the record.
\<close>

record AggregateInput =
  netScore :: real
  hscPercentage :: real
  sscPercentage :: real
  useEquivalence :: "bool option"
  equivalencePercentage :: "real option"

record AggregateBreakdown =
  netContribution :: real
  hscContribution :: real
  sscContribution :: real
  equivalenceContribution :: "real option"
  totalAggregate :: real
  isOALevel :: bool

record ValidationResult =
  isValid :: bool
  errors :: "string list"

text \<open>The constants of \<open>AGGREGATE_CONFIG\<close>.\<close>

definition MAX_NET_SCORE :: real where "MAX_NET_SCORE = 200"
definition WEIGHTS_FSC_NET :: real where "WEIGHTS_FSC_NET = 0.75"
definition WEIGHTS_FSC_HSC :: real where "WEIGHTS_FSC_HSC = 0.15"
definition WEIGHTS_FSC_SSC :: real where "WEIGHTS_FSC_SSC = 0.10"
definition WEIGHTS_OA_LEVEL_NET :: real where "WEIGHTS_OA_LEVEL_NET = 0.75"
definition WEIGHTS_OA_LEVEL_EQUIVALENCE :: real where "WEIGHTS_OA_LEVEL_EQUIVALENCE = 0.25"
definition MIN_PERCENTAGE :: real where "MIN_PERCENTAGE = 0"
definition MAX_PERCENTAGE :: real where "MAX_PERCENTAGE = 100"

definition validateAggregateInput :: "AggregateInput \<Rightarrow> ValidationResult" where
  "validateAggregateInput input =
     (let errors =
        (if netScore input < 0 then [''NET score cannot be negative''] else []) @
        (if netScore input > MAX_NET_SCORE then [''NET score cannot exceed 200''] else []) @
        (if truthy (useEquivalence input) then
           (case equivalencePercentage input of
              None \<Rightarrow> [''Equivalence percentage is required for O/A Level students'']
            | Some e \<Rightarrow>
                (if e < MIN_PERCENTAGE then [''Equivalence percentage cannot be negative'']
                 else []) @
                (if e > MAX_PERCENTAGE then [''Equivalence percentage cannot exceed 100%'']
                 else []))
         else
           (if hscPercentage input < MIN_PERCENTAGE
            then [''HSC/FSc percentage cannot be negative''] else []) @
           (if hscPercentage input > MAX_PERCENTAGE
            then [''HSC/FSc percentage cannot exceed 100%''] else []) @
           (if sscPercentage input < MIN_PERCENTAGE
            then [''SSC/Matric percentage cannot be negative''] else []) @
           (if sscPercentage input > MAX_PERCENTAGE
            then [''SSC/Matric percentage cannot exceed 100%''] else []))
      in \<lparr>isValid = (length errors = 0), errors = errors\<rparr>)"

definition netScoreToPercentage :: "real \<Rightarrow> real" where
  "netScoreToPercentage n = (n / MAX_NET_SCORE) * 100"

definition calculateAggregate :: "AggregateInput \<Rightarrow> AggregateBreakdown" where
  "calculateAggregate input =
     (let netPercentage = netScoreToPercentage (netScore input) in
      if truthy (useEquivalence input) \<and> equivalencePercentage input \<noteq> None then
        (let netContribution = netPercentage * WEIGHTS_OA_LEVEL_NET;
             equivalenceContribution =
               the (equivalencePercentage input) * WEIGHTS_OA_LEVEL_EQUIVALENCE;
             totalAggregate = netContribution + equivalenceContribution
         in \<lparr>netContribution = toFixed2 netContribution,
             hscContribution = 0,
             sscContribution = 0,
             equivalenceContribution = Some (toFixed2 equivalenceContribution),
             totalAggregate = toFixed2 totalAggregate,
             isOALevel = True\<rparr>)
      else
        (let netContribution = netPercentage * WEIGHTS_FSC_NET;
             hscContribution = hscPercentage input * WEIGHTS_FSC_HSC;
             sscContribution = sscPercentage input * WEIGHTS_FSC_SSC;
             totalAggregate = netContribution + hscContribution + sscContribution
         in \<lparr>netContribution = toFixed2 netContribution,
             hscContribution = toFixed2 hscContribution,
             sscContribution = toFixed2 sscContribution,
             equivalenceContribution = None,
             totalAggregate = toFixed2 totalAggregate,
             isOALevel = False\<rparr>))"

text \<open>
  \<open>calculateRequiredNetScore\<close>; \<open>useEquivalence\<close> has the default \<open>false\<close>, so a caller
  that leaves it out passes \<open>False\<close> and \<open>None\<close>.
\<close>

record RequiredNetScore =
  requiredNetScore :: real
  requiredNetPercentage :: real
  achievable :: bool

definition calculateRequiredNetScore ::
  "real \<Rightarrow> real \<Rightarrow> real \<Rightarrow> bool \<Rightarrow> real option \<Rightarrow> RequiredNetScore" where
  "calculateRequiredNetScore targetAggregate hsc ssc useEq eqPct =
     (let requiredNetPercentage =
            (if useEq \<and> eqPct \<noteq> None then
               (let equivalenceContribution = the eqPct * WEIGHTS_OA_LEVEL_EQUIVALENCE
                in (targetAggregate - equivalenceContribution) / WEIGHTS_OA_LEVEL_NET)
             else
               (let hscContribution = hsc * WEIGHTS_FSC_HSC;
                    sscContribution = ssc * WEIGHTS_FSC_SSC
                in (targetAggregate - hscContribution - sscContribution) / WEIGHTS_FSC_NET));
          requiredScore = (requiredNetPercentage / 100) * MAX_NET_SCORE;
          achievable = (requiredScore \<ge> 0 \<and> requiredScore \<le> MAX_NET_SCORE)
      in \<lparr>requiredNetScore = max 0 (min MAX_NET_SCORE (of_int \<lceil>requiredScore\<rceil>)),
          requiredNetPercentage = toFixed2 (max 0 (min 100 requiredNetPercentage)),
          achievable = achievable\<rparr>)"

section \<open>chancePredictor\<close>

text \<open>
  A property declared \<open>?: number | null\<close> has three states. \<open>a ?? b\<close> yields \<open>b\<close> when \<open>a\<close>
  is undefined or null; \<open>x ?? null\<close> has the type \<open>number | null\<close>, an option whose \<open>None\<close> is
  \<open>null\<close>.
\<close>

datatype 'a nullable = Undefined | Null | Value 'a

fun nullish_coalesce :: "'a nullable \<Rightarrow> 'a nullable \<Rightarrow> 'a nullable" where
  "nullish_coalesce (Value x) b = Value x"
| "nullish_coalesce Undefined b = b"
| "nullish_coalesce Null b = b"

fun or_null :: "'a nullable \<Rightarrow> 'a option" where
  "or_null (Value x) = Some x"
| "or_null Undefined = None"
| "or_null Null = None"

text \<open>Undefined or null.\<close>

fun nullish :: "'a nullable \<Rightarrow> bool" where
  "nullish Undefined = True"
| "nullish Null = True"
| "nullish (Value x) = False"

datatype ChanceCategory = HighChance | MediumChance | LowChance | VeryLowChance

record PredictionInput =
  userAggregate :: real
  programId :: string
  programName :: string
  lastYearClosingAggregate :: "real nullable"
  lastYearClosingPosition :: "real nullable"
  averageClosingAggregate :: "real nullable"

text \<open>The \<open>metadata\<close> object of a prediction; \<open>None\<close> is \<open>null\<close>.\<close>

record PredictionMetadata =
  userAggregate :: real
  lastYearClosingAggregate :: "real option"
  difference :: "real option"
  dataAvailable :: bool

text \<open>The \<open>explanation\<close> text, which formats the numbers into a sentence, is left out.\<close>

record PredictionResult =
  chancePercentage :: real
  category :: ChanceCategory
  categoryColor :: string
  tips :: "string list"
  metadata :: PredictionMetadata

text \<open>\<open>PREDICTION_CONFIG\<close>: the thresholds on the difference and the range of each band.\<close>

definition HIGH_ABOVE :: real where "HIGH_ABOVE = 2"
definition MEDIUM_HIGH_ABOVE :: real where "MEDIUM_HIGH_ABOVE = 0"
definition MEDIUM_BELOW :: real where "MEDIUM_BELOW = - 1"
definition LOW_BELOW :: real where "LOW_BELOW = - 3"

record ChanceRange =
  range_min :: real
  range_max :: real

definition CHANCE_RANGES_HIGH :: ChanceRange where
  "CHANCE_RANGES_HIGH = \<lparr>range_min = 80, range_max = 95\<rparr>"
definition CHANCE_RANGES_MEDIUM_HIGH :: ChanceRange where
  "CHANCE_RANGES_MEDIUM_HIGH = \<lparr>range_min = 60, range_max = 79\<rparr>"
definition CHANCE_RANGES_MEDIUM :: ChanceRange where
  "CHANCE_RANGES_MEDIUM = \<lparr>range_min = 40, range_max = 59\<rparr>"
definition CHANCE_RANGES_LOW :: ChanceRange where
  "CHANCE_RANGES_LOW = \<lparr>range_min = 15, range_max = 39\<rparr>"
definition CHANCE_RANGES_VERY_LOW :: ChanceRange where
  "CHANCE_RANGES_VERY_LOW = \<lparr>range_min = 5, range_max = 14\<rparr>"

text \<open>The result \<open>{ category, chancePercentage }\<close> is a pair.\<close>

definition calculateChanceFromDifference :: "real \<Rightarrow> ChanceCategory \<times> real" where
  "calculateChanceFromDifference diff =
     (if diff \<ge> HIGH_ABOVE then
        (let range = CHANCE_RANGES_HIGH;
             chance = min (range_max range) (range_min range + (diff - HIGH_ABOVE) * 3)
         in (HighChance, of_int (round chance)))
      else if diff \<ge> MEDIUM_HIGH_ABOVE then
        (let range = CHANCE_RANGES_MEDIUM_HIGH;
             factor = (diff - MEDIUM_HIGH_ABOVE) / (HIGH_ABOVE - MEDIUM_HIGH_ABOVE);
             chance = range_min range + (range_max range - range_min range) * factor
         in (MediumChance, of_int (round chance)))
      else if diff \<ge> MEDIUM_BELOW then
        (let range = CHANCE_RANGES_MEDIUM;
             factor = (diff - MEDIUM_BELOW) / (MEDIUM_HIGH_ABOVE - MEDIUM_BELOW);
             chance = range_min range + (range_max range - range_min range) * factor
         in (MediumChance, of_int (round chance)))
      else if diff \<ge> LOW_BELOW then
        (let range = CHANCE_RANGES_LOW;
             factor = (diff - LOW_BELOW) / (MEDIUM_BELOW - LOW_BELOW);
             chance = range_min range + (range_max range - range_min range) * factor
         in (LowChance, of_int (round chance)))
      else
        (let range = CHANCE_RANGES_VERY_LOW;
             chance = max (range_min range) (range_max range + (diff - LOW_BELOW) * 2)
         in (VeryLowChance, of_int (round chance))))"

text \<open>
  The five bands as the specification lists them, before the final rounding.
\<close>

definition chanceBeforeRounding :: "real \<Rightarrow> real" where
  "chanceBeforeRounding diff =
     (if diff \<ge> 2 then min 95 (80 + 3 * (diff - 2))
      else if diff \<ge> 0 then 60 + 19 * diff / 2
      else if diff \<ge> - 1 then 40 + 19 * (diff + 1)
      else if diff \<ge> - 3 then 15 + 12 * (diff + 3)
      else max 5 (14 + 2 * (diff + 3)))"

fun getCategoryColor :: "ChanceCategory \<Rightarrow> string" where
  "getCategoryColor HighChance = ''text-green-600 bg-green-100''"
| "getCategoryColor MediumChance = ''text-amber-600 bg-amber-100''"
| "getCategoryColor LowChance = ''text-orange-600 bg-orange-100''"
| "getCategoryColor VeryLowChance = ''text-red-600 bg-red-100''"

fun categoryTips :: "ChanceCategory \<Rightarrow> string list" where
  "categoryTips HighChance =
     [''Keep this program high in your preference list'',
      ''You may also qualify for more competitive programs'',
      ''Stay prepared for document verification'']"
| "categoryTips MediumChance =
     [''Include this program in your middle preferences'',
      ''Have backup options with lower cutoffs'',
      ''Monitor merit list releases carefully'']"
| "categoryTips LowChance =
     [''Consider this as a reach/stretch option'',
      ''Prioritize programs with lower closing merits'',
      ''Look at alternative campuses for similar programs'']"
| "categoryTips VeryLowChance =
     [''Strongly consider alternative programs'',
      ''Check programs at other NUST campuses'',
      ''Consider retaking NET if possible'']"

definition generateTips :: "ChanceCategory \<Rightarrow> real \<Rightarrow> real \<Rightarrow> string list" where
  "generateTips cat diff userAgg =
     categoryTips cat @
     (if userAgg < 60 then [''Focus on programs with historically lower cutoffs''] else [])"

definition createNoDataPrediction :: "real \<Rightarrow> string \<Rightarrow> PredictionResult" where
  "createNoDataPrediction userAgg progName =
     \<lparr>chancePercentage = 50,
      category = MediumChance,
      categoryColor = getCategoryColor MediumChance,
      tips = [''Check official NUST announcements for previous year closing merits'',
              ''Consider this program as a moderate-risk option in your preferences'',
              ''Keep improving your NET score to increase your chances''],
      metadata = \<lparr>userAggregate = userAgg,
                  lastYearClosingAggregate = None,
                  difference = None,
                  dataAvailable = False\<rparr>\<rparr>"

definition predictChance :: "PredictionInput \<Rightarrow> PredictionResult" where
  "predictChance input =
     (let userAgg = PredictionInput.userAggregate input;
          referenceAggregate =
            or_null (nullish_coalesce (PredictionInput.lastYearClosingAggregate input)
                                      (averageClosingAggregate input))
      in case referenceAggregate of
           None \<Rightarrow> createNoDataPrediction userAgg (programName input)
         | Some reference \<Rightarrow>
             (let diff = userAgg - reference;
                  (cat, chance) = calculateChanceFromDifference diff
              in \<lparr>chancePercentage = chance,
                  category = cat,
                  categoryColor = getCategoryColor cat,
                  tips = generateTips cat diff userAgg,
                  metadata = \<lparr>userAggregate = userAgg,
                              lastYearClosingAggregate = Some reference,
                              difference = Some diff,
                              dataAvailable = True\<rparr>\<rparr>))"

text \<open>An input of the chance predictor, to run it on.\<close>

definition example_prediction ::
  "real \<Rightarrow> real nullable \<Rightarrow> real nullable \<Rightarrow> PredictionInput" where
  "example_prediction u lastYear average =
     \<lparr>PredictionInput.userAggregate = u,
      PredictionInput.programId = ''cs'',
      PredictionInput.programName = ''Computer Science'',
      PredictionInput.lastYearClosingAggregate = lastYear,
      lastYearClosingPosition = Undefined,
      averageClosingAggregate = average\<rparr>"

section \<open>meritListPredictor\<close>

text \<open>
  \<open>closingAggregate?: number\<close> is \<open>None\<close> when undefined. The prediction's \<open>explanation\<close>
  text is left out.
\<close>

record MeritListThreshold =
  meritListNumber :: real
  closingAggregate :: "real option"
  closingPosition :: "real option"

record MeritListPredictionInput =
  userAggregate :: real
  programId :: string
  programName :: string
  thresholds :: "MeritListThreshold list"

datatype Confidence = High | Medium | Low

record MeritListPredictionResult =
  predictedList :: "real option"
  confidence :: Confidence
  confidenceColor :: string
  alternatives :: "real list"
  isEstimate :: bool

text \<open>\<open>MERIT_LIST_CONFIG\<close>.\<close>

definition MAX_LISTS :: nat where "MAX_LISTS = 8"
definition CONFIDENCE_THRESHOLDS_HIGH :: real where "CONFIDENCE_THRESHOLDS_HIGH = 2"
definition CONFIDENCE_THRESHOLDS_MEDIUM :: real where "CONFIDENCE_THRESHOLDS_MEDIUM = 0"
definition DEFAULT_AGGREGATE_DROP_PER_LIST :: real where
  "DEFAULT_AGGREGATE_DROP_PER_LIST = 1.5"

definition getConfidence :: "real \<Rightarrow> Confidence" where
  "getConfidence diff =
     (if diff \<ge> CONFIDENCE_THRESHOLDS_HIGH then High
      else if diff \<ge> CONFIDENCE_THRESHOLDS_MEDIUM then Medium
      else Low)"

fun getConfidenceColor :: "Confidence \<Rightarrow> string" where
  "getConfidenceColor High = ''text-green-600 bg-green-100''"
| "getConfidenceColor Medium = ''text-amber-600 bg-amber-100''"
| "getConfidenceColor Low = ''text-red-600 bg-red-100''"

text \<open>
  The merit-list module has its own \<open>createNoDataPrediction\<close>. \<open>estimatedList ? \<dots> : []\<close>
  takes the second branch for \<open>null\<close> and for \<open>0\<close>.
\<close>

definition createNoDataPrediction_meritList :: "real \<Rightarrow> string \<Rightarrow> MeritListPredictionResult" where
  "createNoDataPrediction_meritList userAgg progName =
     (let estimatedList =
            (if userAgg \<ge> 80 then Some 1
             else if userAgg \<ge> 75 then Some 2
             else if userAgg \<ge> 70 then Some 4
             else if userAgg \<ge> 65 then Some 6
             else None)
      in \<lparr>predictedList = estimatedList,
          confidence = Low,
          confidenceColor = getConfidenceColor Low,
          alternatives =
            (case estimatedList of
               None \<Rightarrow> []
             | Some e \<Rightarrow> if e = 0 then [] else filter (\<lambda>n. n \<le> 8) [e + 1, e + 2]),
          isEstimate = True\<rparr>)"

text \<open>
  The variables of the scan: \<open>predictedList\<close>, \<open>confidence\<close>, \<open>alternatives\<close> and
  \<open>closestDifference\<close>, which starts at \<open>Infinity\<close>.
\<close>

datatype bound = Infinity | Finite real

fun below :: "real \<Rightarrow> bound \<Rightarrow> bool" where
  "below x Infinity = True"
| "below x (Finite b) = (x < b)"

type_synonym scan = "real option \<times> Confidence \<times> real list \<times> bound"

definition scan_init :: scan where
  "scan_init = (None, Low, [], Infinity)"

text \<open>One pass of the body of \<open>for (const threshold of sortedThresholds)\<close>.\<close>

definition scan_threshold :: "real \<Rightarrow> scan \<Rightarrow> MeritListThreshold \<Rightarrow> scan" where
  "scan_threshold userAgg st threshold =
     (let (predictedList, confidence, alternatives, closestDifference) = st in
        (case closingAggregate threshold of
           None \<Rightarrow> st
         | Some closing \<Rightarrow>
             (let diff = userAgg - closing in
              if diff \<ge> 0 then
                (case predictedList of
                   None \<Rightarrow>
                     (Some (meritListNumber threshold), getConfidence diff, alternatives,
                      Finite diff)
                 | Some previous \<Rightarrow>
                     if below \<bar>diff\<bar> closestDifference then
                       (Some (meritListNumber threshold), getConfidence diff,
                        alternatives @ [previous], Finite diff)
                     else
                       (predictedList, confidence,
                        alternatives @ [meritListNumber threshold], closestDifference))
              else if predictedList = None \<and> \<bar>diff\<bar> < 3 then
                (predictedList, confidence,
                 alternatives @ [meritListNumber threshold], closestDifference)
              else st)))"

text \<open>
  \<open>[...thresholds].sort((a, b) => a.meritListNumber - b.meritListNumber)\<close> is a stable sort
  on the list number, which is what \<^const>\<open>sort_key\<close> computes.
\<close>

definition predictMeritList :: "MeritListPredictionInput \<Rightarrow> MeritListPredictionResult" where
  "predictMeritList input =
     (if length (thresholds input) = 0 then
        createNoDataPrediction_meritList (MeritListPredictionInput.userAggregate input)
          (MeritListPredictionInput.programName input)
      else
        (let sortedThresholds = sort_key meritListNumber (thresholds input);
             (predictedList, confidence, alternatives, closestDifference) =
               foldl (scan_threshold (MeritListPredictionInput.userAggregate input))
                     scan_init sortedThresholds
         in \<lparr>predictedList = predictedList,
              confidence = confidence,
              confidenceColor = getConfidenceColor confidence,
              alternatives = take 2 alternatives,
              isEstimate = False\<rparr>))"

text \<open>\<open>generateEstimatedThresholds(baseAggregate = 78, numLists = 8)\<close>.\<close>

definition generateEstimatedThresholds :: "real \<Rightarrow> nat \<Rightarrow> MeritListThreshold list" where
  "generateEstimatedThresholds baseAggregate numLists =
     map (\<lambda>i. \<lparr>meritListNumber = real i,
                closingAggregate =
                  Some (max 50 (baseAggregate - (real i - 1) * DEFAULT_AGGREGATE_DROP_PER_LIST)),
                closingPosition = None\<rparr>)
         [1..<numLists + 1]"


section \<open>netScoreRecommender\<close>

text \<open>
  \<open>generateScenarios\<close> reads the weights through a name that the configuration object
  may or may not have, so here \<open>AGGREGATE_CONFIG\<close> is the object literal itself: the list of
  its properties, each a number or a nested object. A name that the object does not have
  reads as \<open>undefined\<close>, and reading a property of \<open>undefined\<close> throws a \<open>TypeError\<close>.
\<close>

datatype jsval = JUndefined | JNum real | JObj "(string \<times> jsval) list"

datatype error = TypeError

definition AGGREGATE_CONFIG :: jsval where
  "AGGREGATE_CONFIG =
     JObj [(''MAX_NET_SCORE'', JNum 200),
           (''WEIGHTS_FSC'', JObj [(''NET'', JNum 0.75), (''HSC'', JNum 0.15),
                                   (''SSC'', JNum 0.10)]),
           (''WEIGHTS_OA_LEVEL'', JObj [(''NET'', JNum 0.75), (''EQUIVALENCE'', JNum 0.25)]),
           (''MIN_PERCENTAGE'', JNum 0),
           (''MAX_PERCENTAGE'', JNum 100)]"

text \<open>\<open>v.k\<close>, and \<open>const { k } = v\<close>.\<close>

fun getProperty :: "jsval \<Rightarrow> string \<Rightarrow> error + jsval" where
  "getProperty JUndefined k = Inl TypeError"
| "getProperty (JNum x) k = Inr JUndefined"
| "getProperty (JObj kvs) k = Inr (case map_of kvs k of None \<Rightarrow> JUndefined | Some v \<Rightarrow> v)"

text \<open>
  A value used as an operand of \<open>*\<close> is converted to a number; what is not a number
  converts to \<open>NaN\<close>, which is \<open>None\<close> here and in the aggregate computed from it.
\<close>

fun toNumber :: "jsval \<Rightarrow> real option" where
  "toNumber (JNum x) = Some x"
| "toNumber JUndefined = None"
| "toNumber (JObj kvs) = None"

record NetScoreRecommendationInput =
  programName :: string
  lastYearClosingAggregate :: real
  hscPercentage :: real
  sscPercentage :: real
  useEquivalence :: "bool option"
  equivalencePercentage :: "real option"

record NetScoreScenario =
  netScore :: real
  resultingAggregate :: "real option"
  chanceCategory :: string
  description :: string

datatype Achievability =
  Easy | ModerateAchievability | Challenging | VeryChallenging | NotAchievable

text \<open>The \<open>explanation\<close> text of the recommendation is left out.\<close>

record NetScoreRecommendation =
  minimumNetScore :: real
  recommendedNetScore :: real
  targetNetScore :: real
  maxNetScore :: real
  achievability :: Achievability
  achievabilityColor :: string
  scenarios :: "NetScoreScenario list"

text \<open>\<open>NET_RECOMMENDER_CONFIG\<close>.\<close>

definition MARGINS_MINIMUM :: real where "MARGINS_MINIMUM = - 1"
definition MARGINS_RECOMMENDED :: real where "MARGINS_RECOMMENDED = 1"
definition MARGINS_TARGET :: real where "MARGINS_TARGET = 3"
definition ACHIEVABILITY_EASY :: real where "ACHIEVABILITY_EASY = 120"
definition ACHIEVABILITY_MODERATE :: real where "ACHIEVABILITY_MODERATE = 150"
definition ACHIEVABILITY_CHALLENGING :: real where "ACHIEVABILITY_CHALLENGING = 175"
definition ACHIEVABILITY_VERY_CHALLENGING :: real where "ACHIEVABILITY_VERY_CHALLENGING = 190"

definition getAchievability :: "real \<Rightarrow> Achievability" where
  "getAchievability requiredScore =
     (if requiredScore > MAX_NET_SCORE then NotAchievable
      else if requiredScore \<le> ACHIEVABILITY_EASY then Easy
      else if requiredScore \<le> ACHIEVABILITY_MODERATE then ModerateAchievability
      else if requiredScore \<le> ACHIEVABILITY_CHALLENGING then Challenging
      else if requiredScore \<le> ACHIEVABILITY_VERY_CHALLENGING then VeryChallenging
      else VeryChallenging)"

fun getAchievabilityColor :: "Achievability \<Rightarrow> string" where
  "getAchievabilityColor Easy = ''text-green-600 bg-green-100''"
| "getAchievabilityColor ModerateAchievability = ''text-blue-600 bg-blue-100''"
| "getAchievabilityColor Challenging = ''text-amber-600 bg-amber-100''"
| "getAchievabilityColor VeryChallenging = ''text-orange-600 bg-orange-100''"
| "getAchievabilityColor NotAchievable = ''text-red-600 bg-red-100''"

text \<open>\<open>arr.indexOf(v)\<close>: the first index of \<open>v\<close>, or \<open>-1\<close>.\<close>

fun indexOf :: "'a list \<Rightarrow> 'a \<Rightarrow> int" where
  "indexOf [] v = - 1"
| "indexOf (x # xs) v =
     (if x = v then 0 else (let i = indexOf xs v in if i = - 1 then - 1 else i + 1))"

text \<open>\<open>arr.filter((score, index, arr) => arr.indexOf(score) === index)\<close>.\<close>

definition removeDuplicates :: "'a list \<Rightarrow> 'a list" where
  "removeDuplicates arr =
     map snd (filter (\<lambda>(index, score). indexOf arr score = int index) (enumerate 0 arr))"

text \<open>
  The body of the loop over the score points, for the value \<open>w\<close> bound to \<open>WEIGHTS\<close>. The
  three reads \<open>WEIGHTS.NET\<close>, \<open>WEIGHTS.HSC\<close>, \<open>WEIGHTS.SSC\<close> happen in this order; a
  comparison with \<open>NaN\<close> is false.
\<close>

definition scenarioAt :: "jsval \<Rightarrow> real \<Rightarrow> real \<Rightarrow> real \<Rightarrow> real \<Rightarrow> error + NetScoreScenario" where
  "scenarioAt w hsc ssc closing score =
     (let netPercentage = (score / MAX_NET_SCORE) * 100 in
      case getProperty w ''NET'' of Inl e \<Rightarrow> Inl e | Inr wNET \<Rightarrow>
      case getProperty w ''HSC'' of Inl e \<Rightarrow> Inl e | Inr wHSC \<Rightarrow>
      case getProperty w ''SSC'' of Inl e \<Rightarrow> Inl e | Inr wSSC \<Rightarrow>
        (let aggregate =
               (case (toNumber wNET, toNumber wHSC, toNumber wSSC) of
                  (Some a, Some b, Some c) \<Rightarrow> Some (netPercentage * a + hsc * b + ssc * c)
                | _ \<Rightarrow> None);
             diff = map_option (\<lambda>a. a - closing) aggregate;
             reaches = (\<lambda>bound. case diff of None \<Rightarrow> False | Some d \<Rightarrow> d \<ge> bound);
             (cat, descr) =
               (if reaches 2 then (''High Chance'', ''Strong position for admission'')
                else if reaches 0 then (''Medium Chance'', ''Competitive, good chance'')
                else if reaches (- 2) then (''Low Chance'', ''Below cutoff, risky'')
                else (''Very Low Chance'', ''Significantly below cutoff''))
         in Inr \<lparr>netScore = score,
                 resultingAggregate = map_option toFixed2 aggregate,
                 chanceCategory = cat,
                 description = descr\<rparr>))"

fun scenarioLoop :: "jsval \<Rightarrow> real \<Rightarrow> real \<Rightarrow> real \<Rightarrow> real list \<Rightarrow> error + NetScoreScenario list" where
  "scenarioLoop w hsc ssc closing [] = Inr []"
| "scenarioLoop w hsc ssc closing (score # rest) =
     (case scenarioAt w hsc ssc closing score of
        Inl e \<Rightarrow> Inl e
      | Inr row \<Rightarrow>
          (case scenarioLoop w hsc ssc closing rest of
             Inl e \<Rightarrow> Inl e
           | Inr rows \<Rightarrow> Inr (row # rows)))"

text \<open>
  \<open>const { MAX_NET_SCORE, WEIGHTS } = AGGREGATE_CONFIG\<close>: the first name is the number
  \<^const>\<open>MAX_NET_SCORE\<close>; the second is looked up in the object.
\<close>

definition generateScenarios :: "real \<Rightarrow> real \<Rightarrow> real \<Rightarrow> real \<Rightarrow> error + NetScoreScenario list" where
  "generateScenarios hsc ssc closing recommendedScore =
     (case getProperty AGGREGATE_CONFIG ''WEIGHTS'' of
        Inl e \<Rightarrow> Inl e
      | Inr WEIGHTS \<Rightarrow>
          (let scorePoints =
                 removeDuplicates
                   [max 80 (recommendedScore - 30),
                    max 100 (recommendedScore - 15),
                    recommendedScore,
                    min MAX_NET_SCORE (recommendedScore + 15),
                    min MAX_NET_SCORE (recommendedScore + 30)]
           in scenarioLoop WEIGHTS hsc ssc closing scorePoints))"

text \<open>
  \<open>getNetScoreRecommendation\<close> calls \<open>calculateRequiredNetScore\<close> with three arguments, so
  with \<open>useEquivalence = false\<close>.
\<close>

definition getNetScoreRecommendation ::
  "NetScoreRecommendationInput \<Rightarrow> error + NetScoreRecommendation" where
  "getNetScoreRecommendation input =
     (let closing = NetScoreRecommendationInput.lastYearClosingAggregate input;
          ssc = NetScoreRecommendationInput.sscPercentage input;
          effectiveHsc =
            (if truthy (NetScoreRecommendationInput.useEquivalence input)
                \<and> NetScoreRecommendationInput.equivalencePercentage input \<noteq> None
             then the (NetScoreRecommendationInput.equivalencePercentage input)
             else NetScoreRecommendationInput.hscPercentage input);
          minimumTarget = closing + MARGINS_MINIMUM;
          recommendedTarget = closing + MARGINS_RECOMMENDED;
          highTarget = closing + MARGINS_TARGET;
          minimumResult = calculateRequiredNetScore minimumTarget effectiveHsc ssc False None;
          recommendedResult =
            calculateRequiredNetScore recommendedTarget effectiveHsc ssc False None;
          targetResult = calculateRequiredNetScore highTarget effectiveHsc ssc False None;
          level = getAchievability (requiredNetScore recommendedResult)
      in case generateScenarios effectiveHsc ssc closing (requiredNetScore recommendedResult) of
           Inl e \<Rightarrow> Inl e
         | Inr rows \<Rightarrow>
             Inr \<lparr>minimumNetScore = requiredNetScore minimumResult,
                  recommendedNetScore = requiredNetScore recommendedResult,
                  targetNetScore = requiredNetScore targetResult,
                  maxNetScore = MAX_NET_SCORE,
                  achievability = level,
                  achievabilityColor = getAchievabilityColor level,
                  scenarios = rows\<rparr>)"

section \<open>preferenceGenerator\<close>

datatype RiskCategory = Safe | Moderate | Ambitious

datatype RiskTolerance = Conservative | ModerateTolerance | Aggressive

text \<open>
  \<open>lastYearClosingAggregate: number | null\<close> is an option whose \<open>None\<close> is \<open>null\<close>;
  \<open>disciplineScores: Record<string, number>\<close> is a map from the discipline's name.
\<close>

record ProgramOption =
  programId :: string
  programName :: string
  campus :: string
  school :: string
  disciplineGroup :: string
  lastYearClosingAggregate :: "real option"
  seats :: "real nullable"

record UserInterests =
  disciplineScores :: "string \<rightharpoonup> real"
  preferredCampuses :: "string list"
  riskTolerance :: RiskTolerance

text \<open>The \<open>reasoning\<close> text of an item is left out.\<close>

record PreferenceItem =
  rank :: nat
  program :: ProgramOption
  riskCategory :: RiskCategory
  riskColor :: string
  chancePercentage :: real
  predictedMeritList :: "real option"
  interestScore :: real
  overallScore :: real

record ByRisk =
  safe :: "PreferenceItem list"
  moderate :: "PreferenceItem list"
  ambitious :: "PreferenceItem list"

record Summary =
  totalPrograms :: nat
  safeCount :: nat
  moderateCount :: nat
  ambitiousCount :: nat
  averageChance :: real

record PreferenceListResult =
  rankedList :: "PreferenceItem list"
  byRisk :: ByRisk
  summary :: Summary
  recommendations :: "string list"

text \<open>\<open>PREFERENCE_CONFIG\<close>.\<close>

definition RISK_THRESHOLDS_SAFE :: real where "RISK_THRESHOLDS_SAFE = 70"
definition RISK_THRESHOLDS_MODERATE :: real where "RISK_THRESHOLDS_MODERATE = 40"
definition SCORING_WEIGHTS_CHANCE :: real where "SCORING_WEIGHTS_CHANCE = 0.4"
definition SCORING_WEIGHTS_INTEREST :: real where "SCORING_WEIGHTS_INTEREST = 0.35"
definition SCORING_WEIGHTS_CAMPUS_PREF :: real where "SCORING_WEIGHTS_CAMPUS_PREF = 0.15"
definition SCORING_WEIGHTS_MERIT_LIST :: real where "SCORING_WEIGHTS_MERIT_LIST = 0.10"

record Mix =
  mix_safe :: real
  mix_moderate :: real
  mix_ambitious :: real

fun RECOMMENDED_MIX :: "RiskTolerance \<Rightarrow> Mix" where
  "RECOMMENDED_MIX Conservative = \<lparr>mix_safe = 0.6, mix_moderate = 0.3, mix_ambitious = 0.1\<rparr>"
| "RECOMMENDED_MIX ModerateTolerance =
     \<lparr>mix_safe = 0.4, mix_moderate = 0.4, mix_ambitious = 0.2\<rparr>"
| "RECOMMENDED_MIX Aggressive = \<lparr>mix_safe = 0.2, mix_moderate = 0.4, mix_ambitious = 0.4\<rparr>"

text \<open>\<open>disciplineScores[group] || 3\<close>: a missing score and the score \<open>0\<close> both give \<open>3\<close>.\<close>

definition getInterestScore :: "ProgramOption \<Rightarrow> UserInterests \<Rightarrow> real" where
  "getInterestScore prog interests =
     (let disciplineScore =
            (case disciplineScores interests (disciplineGroup prog) of
               None \<Rightarrow> 3
             | Some v \<Rightarrow> if v = 0 then 3 else v)
      in (disciplineScore / 5) * 100)"

definition getCampusPreferenceScore :: "string \<Rightarrow> string list \<Rightarrow> real" where
  "getCampusPreferenceScore c preferred =
     (let index = indexOf preferred c in
      if index = - 1 then 50 else max 10 (100 - (of_int index * 15)))"

definition getMeritListScore :: "real option \<Rightarrow> real" where
  "getMeritListScore predicted =
     (case predicted of None \<Rightarrow> 20 | Some l \<Rightarrow> max 10 (100 - ((l - 1) * 12)))"

definition calculateOverallScore :: "real \<Rightarrow> real \<Rightarrow> real \<Rightarrow> real \<Rightarrow> real" where
  "calculateOverallScore chance interest campusScore meritListScore =
     chance * SCORING_WEIGHTS_CHANCE +
     interest * SCORING_WEIGHTS_INTEREST +
     campusScore * SCORING_WEIGHTS_CAMPUS_PREF +
     meritListScore * SCORING_WEIGHTS_MERIT_LIST"

definition getRiskCategory :: "real \<Rightarrow> RiskCategory" where
  "getRiskCategory chance =
     (if chance \<ge> RISK_THRESHOLDS_SAFE then Safe
      else if chance \<ge> RISK_THRESHOLDS_MODERATE then Moderate
      else Ambitious)"

fun getRiskColor :: "RiskCategory \<Rightarrow> string" where
  "getRiskColor Safe = ''text-green-600 bg-green-100 border-green-200''"
| "getRiskColor Moderate = ''text-amber-600 bg-amber-100 border-amber-200''"
| "getRiskColor Ambitious = ''text-red-600 bg-red-100 border-red-200''"

text \<open>
  The warning sign that opens the second message is written as its UTF-8 bytes. The three
  ratios divide by \<open>totalPrograms\<close>; the function is only called with at least one program.
\<close>

definition generateRecommendations :: "Summary \<Rightarrow> RiskTolerance \<Rightarrow> string list" where
  "generateRecommendations summ tolerance =
     (let recommended = RECOMMENDED_MIX tolerance;
          safeRatio = real (safeCount summ) / real (totalPrograms summ);
          moderateRatio = real (moderateCount summ) / real (totalPrograms summ);
          ambitiousRatio = real (ambitiousCount summ) / real (totalPrograms summ);
          found =
            (if safeRatio < mix_safe recommended - 0.1
             then [''Consider adding more safe options to your list for better security.'']
             else []) @
            (if safeCount summ = 0
             then [[CHR 0xE2, CHR 0x9A, CHR 0xA0, CHR 0xEF, CHR 0xB8, CHR 0x8F] @
                   '' You have no safe options. Strongly consider adding programs with high admission chances.'']
             else []) @
            (if ambitiousRatio > mix_ambitious recommended + 0.2
             then [''Your list is heavy on ambitious choices. This is risky - ensure you have backups.'']
             else []) @
            (if totalPrograms summ < 5
             then [''Consider adding more program options to increase your chances of admission.'']
             else []) @
            (if totalPrograms summ > 15
             then [''You have many options selected. Focus on your top 10-12 preferences.'']
             else [])
      in if length found = 0
         then [''Your preference list has a good balance of safe, moderate, and ambitious choices.'']
         else found)"

definition createEmptyResult :: PreferenceListResult where
  "createEmptyResult =
     \<lparr>rankedList = [],
      byRisk = \<lparr>safe = [], moderate = [], ambitious = []\<rparr>,
      summary = \<lparr>totalPrograms = 0, safeCount = 0, moderateCount = 0, ambitiousCount = 0,
                 averageChance = 0\<rparr>,
      recommendations = [''Please select some programs to generate a preference list.'']\<rparr>"

text \<open>
  The function mapped over the programs. \<open>lastYearClosingAggregate ? \<dots> : []\<close> takes the
  second branch for \<open>null\<close> and for \<open>0\<close>; \<open>generateEstimatedThresholds\<close> is called with its
  default of 8 lists.
\<close>

definition scoreProgram :: "real \<Rightarrow> UserInterests \<Rightarrow> ProgramOption \<Rightarrow> PreferenceItem" where
  "scoreProgram userAgg interests prog =
     (let chancePrediction =
            predictChance
              \<lparr>PredictionInput.userAggregate = userAgg,
               PredictionInput.programId = ProgramOption.programId prog,
               PredictionInput.programName = ProgramOption.programName prog,
               PredictionInput.lastYearClosingAggregate =
                 (case ProgramOption.lastYearClosingAggregate prog of
                    None \<Rightarrow> Null | Some c \<Rightarrow> Value c),
               lastYearClosingPosition = Undefined,
               averageClosingAggregate = Undefined\<rparr>;
          estimated =
            (case ProgramOption.lastYearClosingAggregate prog of
               None \<Rightarrow> []
             | Some c \<Rightarrow> if c = 0 then [] else generateEstimatedThresholds c 8);
          meritListPrediction =
            predictMeritList
              \<lparr>MeritListPredictionInput.userAggregate = userAgg,
               MeritListPredictionInput.programId = ProgramOption.programId prog,
               MeritListPredictionInput.programName = ProgramOption.programName prog,
               thresholds = estimated\<rparr>;
          interest = getInterestScore prog interests;
          campusScore = getCampusPreferenceScore (campus prog) (preferredCampuses interests);
          meritListScore = getMeritListScore (predictedList meritListPrediction);
          overall =
            calculateOverallScore (PredictionResult.chancePercentage chancePrediction)
              interest campusScore meritListScore;
          risk = getRiskCategory (PredictionResult.chancePercentage chancePrediction)
      in \<lparr>rank = 0,
          program = prog,
          riskCategory = risk,
          riskColor = getRiskColor risk,
          chancePercentage = PredictionResult.chancePercentage chancePrediction,
          predictedMeritList = predictedList meritListPrediction,
          interestScore = interest,
          overallScore = overall\<rparr>)"

text \<open>
  \<open>sort((a, b) => b.overallScore - a.overallScore)\<close> is a stable sort into descending
  order of the score: \<^const>\<open>sort_key\<close> on the negated score. The ranks are then written
  into the sorted items.
\<close>

definition assignRanks :: "PreferenceItem list \<Rightarrow> PreferenceItem list" where
  "assignRanks items = map (\<lambda>(index, item). item\<lparr>rank := index + 1\<rparr>) (enumerate 0 items)"

definition generatePreferenceList ::
  "real \<Rightarrow> ProgramOption list \<Rightarrow> UserInterests \<Rightarrow> PreferenceListResult" where
  "generatePreferenceList userAgg programs interests =
     (if length programs = 0 then createEmptyResult
      else
        (let scoredPrograms =
               assignRanks
                 (sort_key (\<lambda>p. - overallScore p) (map (scoreProgram userAgg interests) programs));
             groups =
               \<lparr>safe = filter (\<lambda>p. riskCategory p = Safe) scoredPrograms,
                moderate = filter (\<lambda>p. riskCategory p = Moderate) scoredPrograms,
                ambitious = filter (\<lambda>p. riskCategory p = Ambitious) scoredPrograms\<rparr>;
             summ =
               \<lparr>totalPrograms = length scoredPrograms,
                safeCount = length (safe groups),
                moderateCount = length (moderate groups),
                ambitiousCount = length (ambitious groups),
                averageChance =
                  foldl (\<lambda>sum p. sum + chancePercentage p) 0 scoredPrograms
                    / real (length scoredPrograms)\<rparr>
         in \<lparr>rankedList = scoredPrograms,
             byRisk = groups,
             summary = summ,
             recommendations = generateRecommendations summ (riskTolerance interests)\<rparr>))"



section \<open>Rounding to two decimals\<close>




section \<open>The configuration object\<close>

lemmas AGGREGATE_CONFIG_defs =
  MAX_NET_SCORE_def WEIGHTS_FSC_NET_def WEIGHTS_FSC_HSC_def WEIGHTS_FSC_SSC_def
  WEIGHTS_OA_LEVEL_NET_def WEIGHTS_OA_LEVEL_EQUIVALENCE_def MIN_PERCENTAGE_def
  MAX_PERCENTAGE_def

text \<open>The constants used by the calculator are the properties of the object.\<close>

lemma config_MAX_NET_SCORE:
  "getProperty AGGREGATE_CONFIG ''MAX_NET_SCORE'' = Inr (JNum MAX_NET_SCORE)"
  by (simp add: AGGREGATE_CONFIG_def MAX_NET_SCORE_def)

lemma config_WEIGHTS_FSC:
  "getProperty AGGREGATE_CONFIG ''WEIGHTS_FSC'' =
     Inr (JObj [(''NET'', JNum WEIGHTS_FSC_NET), (''HSC'', JNum WEIGHTS_FSC_HSC),
                (''SSC'', JNum WEIGHTS_FSC_SSC)])"
  by (simp add: AGGREGATE_CONFIG_def AGGREGATE_CONFIG_defs)

lemma config_WEIGHTS_OA_LEVEL:
  "getProperty AGGREGATE_CONFIG ''WEIGHTS_OA_LEVEL'' =
     Inr (JObj [(''NET'', JNum WEIGHTS_OA_LEVEL_NET),
                (''EQUIVALENCE'', JNum WEIGHTS_OA_LEVEL_EQUIVALENCE)])"
  by (simp add: AGGREGATE_CONFIG_def AGGREGATE_CONFIG_defs)

text \<open>It has no property \<open>WEIGHTS\<close>.\<close>

lemma config_WEIGHTS: "getProperty AGGREGATE_CONFIG ''WEIGHTS'' = Inr JUndefined"
  by (simp add: AGGREGATE_CONFIG_def)

section \<open>The recommender's scenarios\<close>

text \<open>The list of score points keeps its first element, so the loop body runs.\<close>

lemma removeDuplicates_nonempty: "removeDuplicates (x # xs) \<noteq> []"
  by (simp add: removeDuplicates_def)

lemma scenarioLoop_undefined:
  "points \<noteq> [] \<Longrightarrow> scenarioLoop JUndefined hsc ssc closing points = Inl TypeError"
  by (cases points) (simp_all add: scenarioAt_def)

lemma generateScenarios_throws: "generateScenarios hsc ssc closing r = Inl TypeError"
  by (simp add: generateScenarios_def config_WEIGHTS scenarioLoop_undefined
      removeDuplicates_nonempty)

text \<open>
  Claim C1 says that every core operation is total and never throws, and that
  \<open>getNetScoreRecommendation\<close> returns a recommendation record with its scenario rows for
  every valid input. The code does not: \<open>generateScenarios\<close> takes \<open>WEIGHTS\<close> out of
  \<open>AGGREGATE_CONFIG\<close>, which has \<open>WEIGHTS_FSC\<close> and \<open>WEIGHTS_OA_LEVEL\<close> but no \<open>WEIGHTS\<close>, and
  the first pass of its loop reads \<open>WEIGHTS.NET\<close>. For every input whatsoever
  \<open>getNetScoreRecommendation\<close> ends in a \<open>TypeError\<close> and returns nothing.
\<close>

theorem getNetScoreRecommendation_throws:
  "getNetScoreRecommendation input = Inl TypeError"
  by (simp add: getNetScoreRecommendation_def Let_def generateScenarios_throws)

section \<open>The aggregate\<close>

lemma validate_valid_iff:
  "isValid (validateAggregateInput input) \<longleftrightarrow>
     0 \<le> AggregateInput.netScore input \<and> AggregateInput.netScore input \<le> 200 \<and>
     (if truthy (AggregateInput.useEquivalence input)
      then (\<exists>e. AggregateInput.equivalencePercentage input = Some e \<and> 0 \<le> e \<and> e \<le> 100)
      else 0 \<le> AggregateInput.hscPercentage input \<and> AggregateInput.hscPercentage input \<le> 100 \<and>
           0 \<le> AggregateInput.sscPercentage input \<and> AggregateInput.sscPercentage input \<le> 100)"
  by (auto simp add: validateAggregateInput_def Let_def AGGREGATE_CONFIG_defs
      split: option.splits)




text \<open>
  Claim C9. When \<open>useEquivalence\<close> is true and \<open>equivalencePercentage\<close> is undefined,
  \<open>calculateAggregate\<close> takes the local branch: it reports \<open>isOALevel = false\<close> and weighs
  \<open>hscPercentage\<close> and \<open>sscPercentage\<close> at 0.15 and 0.10, whatever they hold. Nothing in
  the calculation checks that the equivalence value is there (only the separate validation
  does).
\<close>

theorem calculateAggregate_falls_through:
  "calculateAggregate (input\<lparr>AggregateInput.useEquivalence := Some True,
                            AggregateInput.equivalencePercentage := None\<rparr>) =
     \<lparr>netContribution = toFixed2 (AggregateInput.netScore input / 200 * 100 * 0.75),
      hscContribution = toFixed2 (AggregateInput.hscPercentage input * 0.15),
      sscContribution = toFixed2 (AggregateInput.sscPercentage input * 0.10),
      equivalenceContribution = None,
      totalAggregate = toFixed2 (AggregateInput.netScore input / 200 * 100 * 0.75
                          + AggregateInput.hscPercentage input * 0.15
                          + AggregateInput.sscPercentage input * 0.10),
      isOALevel = False\<rparr>"
  by (simp add: calculateAggregate_def netScoreToPercentage_def Let_def AGGREGATE_CONFIG_defs)

theorem calculateAggregate_falls_through_witness:
  "calculateAggregate
     \<lparr>AggregateInput.netScore = 150, AggregateInput.hscPercentage = 85,
      AggregateInput.sscPercentage = 90, AggregateInput.useEquivalence = Some True,
      AggregateInput.equivalencePercentage = None\<rparr> =
     \<lparr>netContribution = 56.25, hscContribution = 12.75, sscContribution = 9,
      equivalenceContribution = None, totalAggregate = 78, isOALevel = False\<rparr> \<and>
   \<not> isValid (validateAggregateInput
     \<lparr>AggregateInput.netScore = 150, AggregateInput.hscPercentage = 85,
      AggregateInput.sscPercentage = 90, AggregateInput.useEquivalence = Some True,
      AggregateInput.equivalencePercentage = None\<rparr>)"
  using calculateAggregate_falls_through [of
     "\<lparr>AggregateInput.netScore = 150, AggregateInput.hscPercentage = 85,
      AggregateInput.sscPercentage = 90, AggregateInput.useEquivalence = None,
      AggregateInput.equivalencePercentage = None\<rparr>"]
  by (simp add: toFixed2_def validate_valid_iff)

section \<open>The required NET score\<close>





section \<open>The chance predictor\<close>

lemmas PREDICTION_CONFIG_defs =
  HIGH_ABOVE_def MEDIUM_HIGH_ABOVE_def MEDIUM_BELOW_def LOW_BELOW_def
  CHANCE_RANGES_HIGH_def CHANCE_RANGES_MEDIUM_HIGH_def CHANCE_RANGES_MEDIUM_def
  CHANCE_RANGES_LOW_def CHANCE_RANGES_VERY_LOW_def

lemma calculateChanceFromDifference_eq:
  "calculateChanceFromDifference diff =
     ((if diff \<ge> 2 then HighChance
       else if diff \<ge> - 1 then MediumChance
       else if diff \<ge> - 3 then LowChance
       else VeryLowChance),
      of_int (round (chanceBeforeRounding diff)))"
  apply (simp add: calculateChanceFromDifference_def chanceBeforeRounding_def Let_def
      PREDICTION_CONFIG_defs)
  apply (intro conjI impI arg_cong [where f = round])
  apply (simp_all add: field_simps)
  done

lemma chanceBeforeRounding_mono:
  "d1 \<le> d2 \<Longrightarrow> chanceBeforeRounding d1 \<le> chanceBeforeRounding d2"
  unfolding chanceBeforeRounding_def by (auto split: if_splits)

lemma chance_mono:
  "d1 \<le> d2 \<Longrightarrow> snd (calculateChanceFromDifference d1) \<le> snd (calculateChanceFromDifference d2)"
  by (simp add: calculateChanceFromDifference_eq round_mono chanceBeforeRounding_mono)

lemma predictChance_present:
  assumes "or_null (nullish_coalesce (PredictionInput.lastYearClosingAggregate input)
                                      (averageClosingAggregate input)) = Some reference"
  shows "predictChance input =
     (let diff = PredictionInput.userAggregate input - reference;
          cat = fst (calculateChanceFromDifference diff)
      in \<lparr>PredictionResult.chancePercentage = snd (calculateChanceFromDifference diff),
          category = cat,
          categoryColor = getCategoryColor cat,
          tips = generateTips cat diff (PredictionInput.userAggregate input),
          metadata = \<lparr>PredictionMetadata.userAggregate = PredictionInput.userAggregate input,
                      PredictionMetadata.lastYearClosingAggregate = Some reference,
                      difference = Some diff,
                      dataAvailable = True\<rparr>\<rparr>)"
  using assms by (simp add: predictChance_def Let_def case_prod_beta)



text \<open>
  Claim C6. The chance predictor is monotone: the map from the difference to the returned
  chance, rounding and band boundaries included, is non-decreasing, and raising the user
  aggregate of an input, its reference data unchanged, never lowers the chance that
  \<open>predictChance\<close> returns.
\<close>

theorem predictChance_monotone:
  "(d1 \<le> d2 \<longrightarrow>
      snd (calculateChanceFromDifference d1) \<le> snd (calculateChanceFromDifference d2)) \<and>
   (PredictionInput.userAggregate input \<le> u2 \<longrightarrow>
      PredictionResult.chancePercentage (predictChance input)
        \<le> PredictionResult.chancePercentage
             (predictChance (input\<lparr>PredictionInput.userAggregate := u2\<rparr>)))"
proof (intro conjI impI)
  assume "d1 \<le> d2"
  then show "snd (calculateChanceFromDifference d1) \<le> snd (calculateChanceFromDifference d2)"
    by (rule chance_mono)
next
  assume le: "PredictionInput.userAggregate input \<le> u2"
  let ?input2 = "input\<lparr>PredictionInput.userAggregate := u2\<rparr>"
  show "PredictionResult.chancePercentage (predictChance input)
        \<le> PredictionResult.chancePercentage (predictChance ?input2)"
  proof (cases "or_null (nullish_coalesce (PredictionInput.lastYearClosingAggregate input)
                                           (averageClosingAggregate input))")
    case None
    then show ?thesis
      by (simp add: predictChance_def Let_def createNoDataPrediction_def)
  next
    case (Some reference)
    then have "or_null (nullish_coalesce (PredictionInput.lastYearClosingAggregate ?input2)
                                           (averageClosingAggregate ?input2)) = Some reference"
      by simp
    note two = predictChance_present [OF this]
    have "PredictionInput.userAggregate input - reference \<le> u2 - reference" using le by simp
    then show ?thesis
      unfolding predictChance_present [OF Some] two Let_def
      by (simp add: chance_mono)
  qed
qed

theorem predictChance_monotone_witness:
  "(75::real) \<le> 76.9 \<and>
   PredictionResult.chancePercentage (predictChance
      \<lparr>PredictionInput.userAggregate = 75, PredictionInput.programId = ''cs'',
       PredictionInput.programName = ''Computer Science'',
       PredictionInput.lastYearClosingAggregate = Value 75,
       lastYearClosingPosition = Undefined, averageClosingAggregate = Undefined\<rparr>) = 60 \<and>
   PredictionResult.chancePercentage (predictChance
      \<lparr>PredictionInput.userAggregate = 76.9, PredictionInput.programId = ''cs'',
       PredictionInput.programName = ''Computer Science'',
       PredictionInput.lastYearClosingAggregate = Value 75,
       lastYearClosingPosition = Undefined, averageClosingAggregate = Undefined\<rparr>) = 78 \<and>
   snd (calculateChanceFromDifference (- 4)) \<le> snd (calculateChanceFromDifference 1.9)"
proof -
  have a: "PredictionResult.chancePercentage (predictChance
      \<lparr>PredictionInput.userAggregate = 75, PredictionInput.programId = ''cs'',
       PredictionInput.programName = ''Computer Science'',
       PredictionInput.lastYearClosingAggregate = Value 75,
       lastYearClosingPosition = Undefined, averageClosingAggregate = Undefined\<rparr>) = 60"
    by (simp add: predictChance_def Let_def calculateChanceFromDifference_eq
        chanceBeforeRounding_def)
  have b: "PredictionResult.chancePercentage (predictChance
      \<lparr>PredictionInput.userAggregate = 76.9, PredictionInput.programId = ''cs'',
       PredictionInput.programName = ''Computer Science'',
       PredictionInput.lastYearClosingAggregate = Value 75,
       lastYearClosingPosition = Undefined, averageClosingAggregate = Undefined\<rparr>) = 78"
    by (simp add: predictChance_def Let_def calculateChanceFromDifference_eq
        chanceBeforeRounding_def round_def)
  show ?thesis
    using a b predictChance_monotone [of "- 4" "1.9"
      "\<lparr>PredictionInput.userAggregate = 75, PredictionInput.programId = ''cs'',
       PredictionInput.programName = ''Computer Science'',
       PredictionInput.lastYearClosingAggregate = Value 75,
       lastYearClosingPosition = Undefined, averageClosingAggregate = Undefined\<rparr>" "76.9"]
    by simp
qed

text \<open>
  Claim C10. \<open>predictChance\<close> finds its reference in two stages: last year's closing
  aggregate when it is present, otherwise the average closing aggregate when that is
  present. The neutral result (50, Medium Chance, no data available) is returned exactly
  when both are null or undefined.
\<close>

theorem predictChance_reference:
  "(let r = predictChance input;
        u = PredictionInput.userAggregate input;
        lastYear = PredictionInput.lastYearClosingAggregate input;
        average = averageClosingAggregate input;
        usesReference = (\<lambda>c.
           PredictionMetadata.lastYearClosingAggregate (metadata r) = Some c \<and>
           difference (metadata r) = Some (u - c) \<and>
           dataAvailable (metadata r) \<and>
           (category r, PredictionResult.chancePercentage r)
             = calculateChanceFromDifference (u - c))
    in (case lastYear of
          Value c \<Rightarrow> usesReference c
        | _ \<Rightarrow> (case average of
                  Value a \<Rightarrow> usesReference a
                | _ \<Rightarrow> r = createNoDataPrediction u (PredictionInput.programName input) \<and>
                       PredictionResult.chancePercentage r = 50 \<and>
                       category r = MediumChance)) \<and>
       (dataAvailable (metadata r) \<longleftrightarrow> \<not> (nullish lastYear \<and> nullish average)))"
  by (cases "PredictionInput.lastYearClosingAggregate input";
      cases "averageClosingAggregate input")
     (simp_all add: predictChance_def Let_def createNoDataPrediction_def case_prod_beta)


theorem predictChance_reference_witness:
  "(let r = predictChance (example_prediction 78 (Value 76) (Value 75))
    in PredictionMetadata.lastYearClosingAggregate (metadata r) = Some 76 \<and>
       difference (metadata r) = Some 2 \<and> dataAvailable (metadata r) \<and>
       PredictionResult.chancePercentage r = 80 \<and> category r = HighChance) \<and>
   (let r = predictChance (example_prediction 78 Undefined (Value 75))
    in PredictionMetadata.lastYearClosingAggregate (metadata r) = Some 75 \<and>
       difference (metadata r) = Some 3 \<and> dataAvailable (metadata r) \<and>
       PredictionResult.chancePercentage r = 83 \<and> category r = HighChance) \<and>
   (let r = predictChance (example_prediction 78 Null Undefined)
    in PredictionMetadata.lastYearClosingAggregate (metadata r) = None \<and>
       difference (metadata r) = None \<and> \<not> dataAvailable (metadata r) \<and>
       PredictionResult.chancePercentage r = 50 \<and> category r = MediumChance)"
  using predictChance_reference [of "example_prediction 78 (Value 76) (Value 75)"]
        predictChance_reference [of "example_prediction 78 Undefined (Value 75)"]
        predictChance_reference [of "example_prediction 78 Null Undefined"]
  by (simp add: example_prediction_def Let_def calculateChanceFromDifference_eq
      chanceBeforeRounding_def createNoDataPrediction_def)

section \<open>The merit-list predictor\<close>









section \<open>The preference list\<close>
















section \<open>Missing reference data\<close>

text \<open>
  Claim C8. Missing reference data gives a fallback value, never an error.
  \<open>predictChance\<close> with neither closing aggregate present returns a chance of 50, Medium
  Chance and \<open>dataAvailable = false\<close>; \<open>predictMeritList\<close> with no thresholds returns the
  estimate from the aggregate's bucket with \<open>isEstimate = true\<close>; and
  \<open>generatePreferenceList\<close> with no programs returns an empty ranked list, a total of 0
  and the single recommendation to select some programs.
\<close>

theorem missing_data_fallbacks:
  "(nullish (PredictionInput.lastYearClosingAggregate chanceInput) \<and>
    nullish (averageClosingAggregate chanceInput) \<longrightarrow>
      (let r = predictChance chanceInput
       in PredictionResult.chancePercentage r = 50 \<and>
          category r = MediumChance \<and>
          \<not> dataAvailable (metadata r))) \<and>
   (thresholds meritInput = [] \<longrightarrow>
      (let a = MeritListPredictionInput.userAggregate meritInput;
           r = predictMeritList meritInput
       in isEstimate r \<and>
          predictedList r =
            (if a \<ge> 80 then Some 1 else if a \<ge> 75 then Some 2 else if a \<ge> 70 then Some 4
             else if a \<ge> 65 then Some 6 else None) \<and>
          r = createNoDataPrediction_meritList a
                (MeritListPredictionInput.programName meritInput))) \<and>
   (let r = generatePreferenceList u [] interests
    in rankedList r = [] \<and>
       totalPrograms (summary r) = 0 \<and>
       recommendations r = [''Please select some programs to generate a preference list.''])"
proof (intro conjI impI)
  assume "nullish (PredictionInput.lastYearClosingAggregate chanceInput) \<and>
    nullish (averageClosingAggregate chanceInput)"
  then show "let r = predictChance chanceInput
       in PredictionResult.chancePercentage r = 50 \<and>
          category r = MediumChance \<and>
          \<not> dataAvailable (metadata r)"
    by (cases "PredictionInput.lastYearClosingAggregate chanceInput";
        cases "averageClosingAggregate chanceInput")
       (simp_all add: predictChance_def createNoDataPrediction_def Let_def)
next
  assume "thresholds meritInput = []"
  then show "let a = MeritListPredictionInput.userAggregate meritInput;
           r = predictMeritList meritInput
       in isEstimate r \<and>
          predictedList r =
            (if a \<ge> 80 then Some 1 else if a \<ge> 75 then Some 2 else if a \<ge> 70 then Some 4
             else if a \<ge> 65 then Some 6 else None) \<and>
          r = createNoDataPrediction_meritList a
                (MeritListPredictionInput.programName meritInput)"
    by (simp add: predictMeritList_def createNoDataPrediction_meritList_def Let_def)
next
  show "let r = generatePreferenceList u [] interests
    in rankedList r = [] \<and>
       totalPrograms (summary r) = 0 \<and>
       recommendations r = [''Please select some programs to generate a preference list.'']"
    by (simp add: generatePreferenceList_def createEmptyResult_def)
qed

theorem missing_data_fallbacks_witness:
  "(let r = predictChance
              \<lparr>PredictionInput.userAggregate = 78, PredictionInput.programId = ''cs'',
               PredictionInput.programName = ''Computer Science'',
               PredictionInput.lastYearClosingAggregate = Null,
               lastYearClosingPosition = Value 120, averageClosingAggregate = Undefined\<rparr>
    in PredictionResult.chancePercentage r = 50 \<and> category r = MediumChance \<and>
       \<not> dataAvailable (metadata r)) \<and>
   (let r = predictMeritList
              \<lparr>MeritListPredictionInput.userAggregate = 76,
               MeritListPredictionInput.programId = ''cs'',
               MeritListPredictionInput.programName = ''Computer Science'',
               thresholds = []\<rparr>
    in isEstimate r \<and> predictedList r = Some 2 \<and> alternatives r = [3, 4])"
  using missing_data_fallbacks [of
      "\<lparr>PredictionInput.userAggregate = 78, PredictionInput.programId = ''cs'',
               PredictionInput.programName = ''Computer Science'',
               PredictionInput.lastYearClosingAggregate = Null,
               lastYearClosingPosition = Value 120, averageClosingAggregate = Undefined\<rparr>"
      "\<lparr>MeritListPredictionInput.userAggregate = 76,
               MeritListPredictionInput.programId = ''cs'',
               MeritListPredictionInput.programName = ''Computer Science'',
               thresholds = []\<rparr>"]
  by (simp add: Let_def createNoDataPrediction_meritList_def)

end
